theory Spec2Isabelle
  imports Complex_Main
begin

section \<open>The measurement system of \<^verbatim>\<open>MeasurementSystem.ts\<close>\<close>

text \<open>
  The class \<^verbatim>\<open>MeasurementSystem\<close> is embedded as a record of its mutable fields and
  one state-passing function per method. JavaScript numbers are idealised as real
  numbers: rounding error, infinities and NaN are outside the model. The one place where
  this matters for a real input is the quotient \<^verbatim>\<open>distance / increment\<close> of
  \<^verbatim>\<open>snapToIncrement\<close>: for \<^verbatim>\<open>increment = 0\<close> JavaScript yields Infinity or NaN,
  HOL yields \<open>0\<close>. The model therefore speaks for the program only where the increment
  is not zero, and every statement about \<open>snapToIncrement\<close> below carries that
  hypothesis. Both call sites pass the non-zero constants \<open>SNAP_SHIFT\<close> and
  \<open>SNAP_CTRL\<close>.
\<close>

subsection \<open>Vectors\<close>

text \<open>
  \<^verbatim>\<open>THREE.Vector3\<close>: three numbers. The selectors are \<open>vx\<close>, \<open>vy\<close>, \<open>vz\<close> for the
  fields \<^verbatim>\<open>x\<close>, \<open>y\<close>, \<open>z\<close>. Vectors are values here; the source clones every vector
  before it mutates it (\<^verbatim>\<open>a.clone().sub(b)\<close>), so no caller-owned vector is changed by
  any method.
\<close>

datatype Vector3 = Vector3 (vx: real) (vy: real) (vz: real)

text \<open>
  Modelled from the spec: the methods of \<^verbatim>\<open>THREE.Vector3\<close> belong to the three.js
  library, which is imported by the source and not part of it. They follow the spec's
  Geometry Kernel (\<open>distance(a, b)\<close> is the Euclidean norm of \<open>b - a\<close>, directions are
  normalised) and the library's definitions: \<^verbatim>\<open>distanceTo\<close> is the square root of
  \<^verbatim>\<open>distanceToSquared\<close>, which subtracts the argument from the receiver, and
  \<^verbatim>\<open>normalize()\<close> is \<^verbatim>\<open>divideScalar(length() || 1)\<close>, so that the zero vector is
  left as it is. \<open>add_v\<close>, \<open>sub_v\<close>, \<open>normalize_v\<close> and \<open>vlength\<close> are the methods
  \<^verbatim>\<open>add\<close>, \<^verbatim>\<open>sub\<close>, \<^verbatim>\<open>normalize\<close> and \<^verbatim>\<open>length\<close>.
\<close>

definition add_v :: "Vector3 \<Rightarrow> Vector3 \<Rightarrow> Vector3" where
  "add_v a b = Vector3 (vx a + vx b) (vy a + vy b) (vz a + vz b)"

definition sub_v :: "Vector3 \<Rightarrow> Vector3 \<Rightarrow> Vector3" where
  "sub_v a b = Vector3 (vx a - vx b) (vy a - vy b) (vz a - vz b)"

definition multiplyScalar :: "Vector3 \<Rightarrow> real \<Rightarrow> Vector3" where
  "multiplyScalar v s = Vector3 (vx v * s) (vy v * s) (vz v * s)"

definition divideScalar :: "Vector3 \<Rightarrow> real \<Rightarrow> Vector3" where
  "divideScalar v s = multiplyScalar v (1 / s)"

definition vlength :: "Vector3 \<Rightarrow> real" where
  "vlength v = sqrt (vx v * vx v + vy v * vy v + vz v * vz v)"

definition normalize_v :: "Vector3 \<Rightarrow> Vector3" where
  "normalize_v v = divideScalar v (if vlength v = 0 then 1 else vlength v)"

definition distanceToSquared :: "Vector3 \<Rightarrow> Vector3 \<Rightarrow> real" where
  "distanceToSquared a b =
     (let dx = vx a - vx b; dy = vy a - vy b; dz = vz a - vz b
      in dx * dx + dy * dy + dz * dz)"

definition distanceTo :: "Vector3 \<Rightarrow> Vector3 \<Rightarrow> real" where
  "distanceTo a b = sqrt (distanceToSquared a b)"

text \<open>
  Modelled from the spec: \<^verbatim>\<open>Math.round\<close> is a built-in of the language. It returns
  the nearest integer, the larger one at a tie (the spec's \<open>round\<close>, with
  \<open>round(1.23 / 0.5) = 2\<close>).
\<close>

definition Math_round :: "real \<Rightarrow> real" where
  "Math_round x = of_int \<lfloor>x + 1 / 2\<rfloor>"

subsection \<open>Scene objects\<close>

text \<open>
  Every \<^verbatim>\<open>THREE.Object3D\<close> has an identity, and \<^verbatim>\<open>scene.remove\<close> looks its argument
  up by identity. The model gives each object that is added to the scene a number
  (\<open>line_id\<close>, \<open>group_id\<close>) taken from the counter \<open>nextId\<close>, and the scene is the list
  of the numbers of its children, in insertion order.

  A \<^verbatim>\<open>THREE.Line\<close> carries its geometry (the points given to \<^verbatim>\<open>setFromPoints\<close>) and
  the line distances that \<^verbatim>\<open>computeLineDistances\<close> derives from them.
\<close>

record Line =
  line_id :: nat
  geometry :: "Vector3 list"
  lineDistances :: "real list"

text \<open>
  Modelled from the spec: \<^verbatim>\<open>Line.computeLineDistances\<close> is three.js code; it stores,
  for every point of the geometry, the length of the polyline up to that point. Its
  array starts as \<^verbatim>\<open>[0]\<close> and gets one more entry for every point after the first.
\<close>

fun lineDistancesFrom :: "real \<Rightarrow> Vector3 \<Rightarrow> Vector3 list \<Rightarrow> real list" where
  "lineDistancesFrom acc prev [] = []"
| "lineDistancesFrom acc prev (p # ps) =
     (acc + distanceTo prev p) # lineDistancesFrom (acc + distanceTo prev p) p ps"

definition computeLineDistances :: "Line \<Rightarrow> Line" where
  "computeLineDistances l =
     l\<lparr>lineDistances :=
         0 # (case geometry l of [] \<Rightarrow> [] | p # ps \<Rightarrow> lineDistancesFrom 0 p ps)\<rparr>"

text \<open>
  \<^verbatim>\<open>userData\<close> of a \<^verbatim>\<open>DimensionGroup\<close>: the fields \<^verbatim>\<open>startPoint\<close>, \<open>endPoint\<close> and
  \<^verbatim>\<open>distance\<close>, prefixed here to keep them apart from the field \<open>startPoint\<close> of the
  system.
\<close>

record UserData =
  ud_startPoint :: Vector3
  ud_endPoint :: Vector3
  ud_distance :: real

text \<open>
  A \<^verbatim>\<open>DimensionGroup\<close> with the geometry of its three line children. The two
  arrowhead meshes and the label sprite are rendering primitives built with
  \<^verbatim>\<open>atan2\<close>, \<^verbatim>\<open>lookAt\<close> and a canvas; they are not part of the model.
\<close>

record DimensionGroup =
  group_id :: nat
  userData :: UserData
  dimLine :: "Vector3 list"
  extLine1 :: "Vector3 list"
  extLine2 :: "Vector3 list"

subsection \<open>The system state\<close>

text \<open>
  The fields under \<^verbatim>\<open>// Core state\<close>. \<open>scene\<close> holds the children of the wired
  \<^verbatim>\<open>THREE.Scene\<close> (the field is declared \<^verbatim>\<open>scene!: THREE.Scene\<close>, so by its type it
  is a scene), \<open>camera\<close> is an opaque handle. The materials are constants of the
  instance and disposing of a material or geometry changes none of the fields below, so
  \<^verbatim>\<open>disposeGroup\<close> is the identity on this state.
\<close>

record MeasurementSystem =
  scene :: "nat list"
  camera :: nat
  isActive :: bool
  startPoint :: "Vector3 option"
  previewLine :: "Line option"
  currentMousePos :: Vector3
  measurements :: "DimensionGroup list"
  nextId :: nat

definition EXTENSION_OFFSET :: real where
  "EXTENSION_OFFSET = 2 / 1000"

definition EXTENSION_OVERSHOOT :: real where
  "EXTENSION_OVERSHOOT = 3 / 1000"

definition SNAP_SHIFT :: real where
  "SNAP_SHIFT = 5 / 10"

definition SNAP_CTRL :: real where
  "SNAP_CTRL = 1 / 10"

text \<open>
  Modelled from the spec: \<^verbatim>\<open>Object3D.add\<close> and \<^verbatim>\<open>Object3D.remove\<close> are three.js code.
  \<open>add\<close> appends a freshly constructed object to the children; \<open>remove\<close> deletes the
  object from the children if it is among them.
\<close>

definition scene_add :: "nat \<Rightarrow> nat list \<Rightarrow> nat list" where
  "scene_add obj children = children @ [obj]"

definition scene_remove :: "nat \<Rightarrow> nat list \<Rightarrow> nat list" where
  "scene_remove obj children = remove1 obj children"

subsection \<open>Methods\<close>

definition init :: "nat list \<Rightarrow> nat \<Rightarrow> MeasurementSystem \<Rightarrow> MeasurementSystem" where
  "init sc cam s = s\<lparr>scene := sc, camera := cam\<rparr>"

definition activate :: "MeasurementSystem \<Rightarrow> MeasurementSystem" where
  "activate s = s\<lparr>isActive := True\<rparr>"

definition cancelMeasurement :: "MeasurementSystem \<Rightarrow> MeasurementSystem" where
  "cancelMeasurement s =
     (case previewLine s of
        Some l \<Rightarrow> s\<lparr>scene := scene_remove (line_id l) (scene s), previewLine := None\<rparr>
      | None \<Rightarrow> s)\<lparr>startPoint := None\<rparr>"

definition deactivate :: "MeasurementSystem \<Rightarrow> MeasurementSystem" where
  "deactivate s = cancelMeasurement (s\<lparr>isActive := False\<rparr>)"

datatype DomEvent = KeyboardEvent string | MouseEvent

fun handleEvent :: "DomEvent \<Rightarrow> MeasurementSystem \<Rightarrow> MeasurementSystem" where
  "handleEvent (KeyboardEvent key) s = (if key = ''Escape'' then cancelMeasurement s else s)"
| "handleEvent MouseEvent s = s"

definition handleMouseMove :: "Vector3 \<Rightarrow> MeasurementSystem \<Rightarrow> MeasurementSystem" where
  "handleMouseMove p s =
     (if \<not> isActive s then s
      else
        let s1 = s\<lparr>currentMousePos := p\<rparr>
        in case previewLine s1 of
             None \<Rightarrow> s1
           | Some l \<Rightarrow>
               (case startPoint s1 of
                  None \<Rightarrow> s1
                | Some sp \<Rightarrow>
                    s1\<lparr>previewLine :=
                         Some (computeLineDistances (l\<lparr>geometry := [sp, p]\<rparr>))\<rparr>))"

definition snapToIncrement :: "Vector3 \<Rightarrow> Vector3 \<Rightarrow> real \<Rightarrow> Vector3" where
  "snapToIncrement start end increment =
     (let distance = distanceTo start end;
          snappedDistance = Math_round (distance / increment) * increment
      in if snappedDistance = 0 then end
         else
           let direction = normalize_v (sub_v end start)
           in add_v start (multiplyScalar direction snappedDistance))"

definition perpendicular :: "Vector3 \<Rightarrow> Vector3" where
  \<comment> \<open>line 151: \<^verbatim>\<open>new THREE.Vector3(-direction.y, direction.x, 0).normalize()\<close>\<close>
  "perpendicular direction = normalize_v (Vector3 (- vy direction) (vx direction) 0)"

definition createDimensionLineGroup :: "nat \<Rightarrow> Vector3 \<Rightarrow> Vector3 \<Rightarrow> DimensionGroup" where
  "createDimensionLineGroup gid a b =
     (let distance = distanceTo a b;
          direction = sub_v b a;
          perp = perpendicular direction;
          extensionLength = EXTENSION_OFFSET + EXTENSION_OVERSHOOT
      in \<lparr>group_id = gid,
          userData = \<lparr>ud_startPoint = a, ud_endPoint = b, ud_distance = distance\<rparr>,
          dimLine = [a, b],
          extLine1 = [sub_v a (multiplyScalar perp extensionLength),
                      add_v a (multiplyScalar perp EXTENSION_OFFSET)],
          extLine2 = [sub_v b (multiplyScalar perp extensionLength),
                      add_v b (multiplyScalar perp EXTENSION_OFFSET)]\<rparr>)"

definition completeMeasurement ::
  "Vector3 \<Rightarrow> Vector3 \<Rightarrow> MeasurementSystem \<Rightarrow> MeasurementSystem" where
  "completeMeasurement a b s =
     (let dimensionGroup = createDimensionLineGroup (nextId s) a b
      in s\<lparr>scene := scene_add (group_id dimensionGroup) (scene s),
           measurements := measurements s @ [dimensionGroup],
           nextId := nextId s + 1\<rparr>)"

definition handleClick ::
  "Vector3 \<Rightarrow> bool \<Rightarrow> bool \<Rightarrow> MeasurementSystem \<Rightarrow> MeasurementSystem" where
  "handleClick p shiftKey ctrlKey s =
     (if \<not> isActive s then s
      else case startPoint s of
        None \<Rightarrow>
          (let line = computeLineDistances
                        \<lparr>line_id = nextId s, geometry = [p, p], lineDistances = []\<rparr>
           in s\<lparr>startPoint := Some p,
                previewLine := Some line,
                scene := scene_add (line_id line) (scene s),
                nextId := nextId s + 1\<rparr>)
      | Some sp \<Rightarrow>
          (let endPoint =
                 (if shiftKey then snapToIncrement sp p SNAP_SHIFT
                  else if ctrlKey then snapToIncrement sp p SNAP_CTRL
                  else p)
           in cancelMeasurement (completeMeasurement sp endPoint s)))"

definition removeMeasurement :: "int \<Rightarrow> MeasurementSystem \<Rightarrow> MeasurementSystem" where
  "removeMeasurement index s =
     (if 0 \<le> index \<and> index < int (length (measurements s))
      then
        let measurement = measurements s ! nat index
        in s\<lparr>scene := scene_remove (group_id measurement) (scene s),
             measurements :=
               take (nat index) (measurements s) @ drop (nat index + 1) (measurements s)\<rparr>
      else s)"

definition clearAllMeasurements :: "MeasurementSystem \<Rightarrow> MeasurementSystem" where
  "clearAllMeasurements s =
     s\<lparr>scene := foldl (\<lambda>children m. scene_remove (group_id m) children)
                   (scene s) (measurements s),
       measurements := []\<rparr>"

definition dispose :: "MeasurementSystem \<Rightarrow> MeasurementSystem" where
  "dispose s = cancelMeasurement (clearAllMeasurements s)"

text \<open>
  The host delivers one call at a time (\<^verbatim>\<open>part_000\<close>: the listeners for
  \<^verbatim>\<open>mousemove\<close>, \<^verbatim>\<open>click\<close> and \<^verbatim>\<open>keydown\<close>); a call of any public method is an
  event, and a run is a list of events applied in order.
\<close>

datatype Event =
    Init "nat list" nat
  | Activate
  | Deactivate
  | HandleEvent DomEvent
  | MouseMove Vector3
  | Click Vector3 bool bool
  | Cancel
  | Remove int
  | ClearAll
  | Dispose

fun step :: "Event \<Rightarrow> MeasurementSystem \<Rightarrow> MeasurementSystem" where
  "step (Init sc cam) s = init sc cam s"
| "step Activate s = activate s"
| "step Deactivate s = deactivate s"
| "step (HandleEvent e) s = handleEvent e s"
| "step (MouseMove p) s = handleMouseMove p s"
| "step (Click p shiftKey ctrlKey) s = handleClick p shiftKey ctrlKey s"
| "step Cancel s = cancelMeasurement s"
| "step (Remove i) s = removeMeasurement i s"
| "step ClearAll s = clearAllMeasurements s"
| "step Dispose s = dispose s"

fun run :: "Event list \<Rightarrow> MeasurementSystem \<Rightarrow> MeasurementSystem" where
  "run [] s = s"
| "run (e # es) s = run es (step e s)"

text \<open>
  The field initialisers of the class, on a system wired to the scene children \<open>sc\<close>
  and the camera \<open>cam\<close>; \<open>n\<close> is the first unused object number.
\<close>

definition new_MeasurementSystem :: "nat list \<Rightarrow> nat \<Rightarrow> nat \<Rightarrow> MeasurementSystem" where
  "new_MeasurementSystem sc cam n =
     \<lparr>scene = sc, camera = cam, isActive = False, startPoint = None, previewLine = None,
      currentMousePos = Vector3 0 0 0, measurements = [], nextId = n\<rparr>"

subsection \<open>The singleton\<close>

text \<open>
  \<^verbatim>\<open>static instance\<close> and \<^verbatim>\<open>createReference\<close>. An instance is known by its address;
  \<^verbatim>\<open>new MeasurementSystem()\<close> returns the next unused address. The static slot is
  empty (\<^verbatim>\<open>undefined\<close>, which is falsy) until the first call and holds an object
  (truthy) from then on. The field is \<open>static_instance\<close> here.
\<close>

record Statics =
  static_instance :: "nat option"
  allocated :: nat

definition createReference :: "Statics \<Rightarrow> nat \<times> Statics" where
  "createReference st =
     (case static_instance st of
        None \<Rightarrow> (allocated st, st\<lparr>static_instance := Some (allocated st),
                                   allocated := allocated st + 1\<rparr>)
      | Some obj \<Rightarrow> (obj, st))"

subsection \<open>Identities in the registry\<close>

text \<open>
  The invariant that makes a stored group identifiable by its number: every group in the
  registry has a number below the counter, and no two groups share one. It holds on a
  new system and every method keeps it.
\<close>

definition registry_wf :: "MeasurementSystem \<Rightarrow> bool" where
  "registry_wf s \<longleftrightarrow>
     list_all (\<lambda>g. group_id g < nextId s) (measurements s)
     \<and> distinct (map group_id (measurements s))"

subsection \<open>Example states\<close>

text \<open>
  Concrete states on which the statements below are evaluated: an active system with no
  pending point, the same system after one click at the origin, a system with three
  completed measurements, and the statics before the first \<^verbatim>\<open>createReference\<close>.
\<close>

definition idle_example :: MeasurementSystem where
  "idle_example = activate (new_MeasurementSystem [] 0 0)"

definition pending_example :: MeasurementSystem where
  "pending_example = handleClick (Vector3 0 0 0) False False idle_example"

definition registry_example :: MeasurementSystem where
  "registry_example =
     run [Click (Vector3 0 0 0) False False, Click (Vector3 1 0 0) False False,
          Click (Vector3 0 0 0) False False, Click (Vector3 2 0 0) False False,
          Click (Vector3 0 0 0) False False, Click (Vector3 3 0 0) False False]
       idle_example"

definition statics_example :: Statics where
  "statics_example = \<lparr>static_instance = None, allocated = 0\<rparr>"

section \<open>Properties\<close>

subsection \<open>Vector arithmetic, rounding and frame lemmas\<close>

lemma distanceToSquared_nonneg: "0 \<le> distanceToSquared a b"
  by (simp add: distanceToSquared_def Let_def)

lemma distanceTo_nonneg: "0 \<le> distanceTo a b"
  by (simp add: distanceTo_def distanceToSquared_nonneg)

lemma sum_three_squares_eq_0: "(a::real) * a + b * b + c * c = 0 \<longleftrightarrow> a = 0 \<and> b = 0 \<and> c = 0"
proof
  assume h: "a * a + b * b + c * c = 0"
  have "0 \<le> a * a" "0 \<le> b * b" "0 \<le> c * c" by simp_all
  with h have "a * a = 0" "b * b = 0" "c * c = 0" by linarith+
  then show "a = 0 \<and> b = 0 \<and> c = 0" by simp
qed simp

lemma vlength_eq_0_iff: "vlength v = 0 \<longleftrightarrow> v = Vector3 0 0 0"
  by (cases v) (simp add: vlength_def sum_three_squares_eq_0)

lemma distanceTo_eq_0_iff: "distanceTo a b = 0 \<longleftrightarrow> a = b"
  by (cases a; cases b) (simp add: distanceTo_def distanceToSquared_def Let_def sum_three_squares_eq_0)

lemma vlength_sub: "vlength (sub_v b a) = distanceTo a b"
proof -
  have "distanceToSquared a b = (vx b - vx a) * (vx b - vx a) + (vy b - vy a) * (vy b - vy a) + (vz b - vz a) * (vz b - vz a)"
    by (simp add: distanceToSquared_def Let_def algebra_simps)
  then show ?thesis by (simp add: vlength_def sub_v_def distanceTo_def)
qed

lemma vlength_nonneg: "0 \<le> vlength v"
  by (simp add: vlength_def)

lemma vlength_multiplyScalar: "vlength (multiplyScalar v s) = vlength v * \<bar>s\<bar>"
proof -
  have "vx v * s * (vx v * s) + vy v * s * (vy v * s) + vz v * s * (vz v * s)
        = (vx v * vx v + vy v * vy v + vz v * vz v) * (s * s)"
    by (simp add: algebra_simps)
  then show ?thesis
    by (simp add: vlength_def multiplyScalar_def real_sqrt_mult)
qed

lemma vlength_normalize: "vlength v \<noteq> 0 \<Longrightarrow> vlength (normalize_v v) = 1"
  using vlength_nonneg [of v]
  by (simp add: normalize_v_def divideScalar_def vlength_multiplyScalar)

lemma normalize_zero: "normalize_v (Vector3 0 0 0) = Vector3 0 0 0"
  by (simp add: normalize_v_def divideScalar_def multiplyScalar_def vlength_def)

lemma sub_add_cancel_v: "sub_v (add_v s v) s = v"
  by (cases v) (simp add: sub_v_def add_v_def)

lemma distanceTo_add: "distanceTo s (add_v s v) = vlength v"
  using vlength_sub [of "add_v s v" s] by (simp add: sub_add_cancel_v)

lemma normalize_multiplyScalar:
  assumes "vlength u = 1" and "0 < c"
  shows "normalize_v (multiplyScalar u c) = u"
proof -
  have len: "vlength (multiplyScalar u c) = c"
    using assms by (simp add: vlength_multiplyScalar)
  have "normalize_v (multiplyScalar u c) = divideScalar (multiplyScalar u c) c"
    using assms(2) by (simp add: normalize_v_def len)
  also have "\<dots> = u"
    using assms(2) by (cases u) (simp add: divideScalar_def multiplyScalar_def)
  finally show ?thesis .
qed

lemma Math_round_of_int: "Math_round (of_int n) = of_int n"
  by (simp add: Math_round_def)

lemma Math_round_nonneg: "0 \<le> x \<Longrightarrow> 0 \<le> Math_round x"
  by (simp add: Math_round_def)

lemma snapped_facts:
  assumes k: "0 < k" and nz: "Math_round (distanceTo s e / k) * k \<noteq> 0"
  shows "0 < Math_round (distanceTo s e / k) * k" and "vlength (sub_v e s) \<noteq> 0"
proof -
  let ?d = "distanceTo s e"
  have "0 \<le> ?d / k" using k distanceTo_nonneg [of s e] by simp
  then have "0 \<le> Math_round (?d / k)" by (rule Math_round_nonneg)
  moreover have "Math_round (?d / k) \<noteq> 0" using nz by auto
  ultimately have pos: "0 < Math_round (?d / k)" by simp
  then show "0 < Math_round (?d / k) * k" using k by simp
  have "?d \<noteq> 0"
  proof
    assume "?d = 0"
    then have "Math_round (?d / k) = 0" by (simp add: Math_round_def)
    with pos show False by simp
  qed
  then show "vlength (sub_v e s) \<noteq> 0" by (simp add: vlength_sub)
qed

lemma snapToIncrement_nonzero:
  assumes k: "0 < k" and nz: "Math_round (distanceTo s e / k) * k \<noteq> 0"
  shows "snapToIncrement s e k = add_v s (multiplyScalar (normalize_v (sub_v e s)) (Math_round (distanceTo s e / k) * k))"
  using nz by (simp add: snapToIncrement_def Let_def)

lemma snapToIncrement_distance:
  assumes k: "0 < k" and nz: "Math_round (distanceTo s e / k) * k \<noteq> 0"
  shows "distanceTo s (snapToIncrement s e k) = Math_round (distanceTo s e / k) * k"
proof -
  note f = snapped_facts [OF k nz]
  have "distanceTo s (snapToIncrement s e k) = vlength (normalize_v (sub_v e s)) * \<bar>Math_round (distanceTo s e / k) * k\<bar>"
    by (simp only: snapToIncrement_nonzero [OF k nz] distanceTo_add vlength_multiplyScalar)
  also have "\<dots> = Math_round (distanceTo s e / k) * k"
    using f by (simp add: vlength_normalize)
  finally show ?thesis .
qed

lemma cancelMeasurement_measurements: "measurements (cancelMeasurement s) = measurements s"
  by (simp add: cancelMeasurement_def split: option.split)

lemma cancelMeasurement_idle:
  "startPoint (cancelMeasurement s) = None \<and> previewLine (cancelMeasurement s) = None"
  by (simp add: cancelMeasurement_def split: option.split)

lemma step_keeps_records:
  "measurements (step ev s) = measurements s
   \<or> (\<exists>sp e. startPoint s = Some sp
         \<and> measurements (step ev s) = measurements s @ [createDimensionLineGroup (nextId s) sp e])
   \<or> (\<exists>i. i < length (measurements s)
         \<and> measurements (step ev s) = take i (measurements s) @ drop (Suc i) (measurements s))
   \<or> measurements (step ev s) = []"
proof (cases ev)
  case (Click p sh c)
  then show ?thesis
    by (auto simp: handleClick_def completeMeasurement_def cancelMeasurement_measurements Let_def
        split: option.split)
next
  case (Remove i)
  show ?thesis
  proof (cases "0 \<le> i \<and> i < int (length (measurements s))")
    case True
    then have "nat i < length (measurements s)" by linarith
    moreover have "measurements (step ev s)
        = take (nat i) (measurements s) @ drop (Suc (nat i)) (measurements s)"
      using True Remove by (simp add: removeMeasurement_def Let_def)
    ultimately show ?thesis by blast
  next
    case False
    with Remove have "measurements (step ev s) = measurements s"
      by (auto simp: removeMeasurement_def)
    then show ?thesis by blast
  qed
next
  case (HandleEvent e)
  then show ?thesis
    by (cases e) (simp_all add: cancelMeasurement_measurements)
next
  case (MouseMove p)
  then show ?thesis
    by (simp add: handleMouseMove_def Let_def split: option.splits)
qed (simp_all add: init_def activate_def deactivate_def
      cancelMeasurement_measurements clearAllMeasurements_def dispose_def)

lemma cancelMeasurement_nextId: "nextId (cancelMeasurement s) = nextId s"
  by (simp add: cancelMeasurement_def split: option.split)

lemma step_nextId_mono: "nextId s \<le> nextId (step ev s)"
proof (cases ev)
  case (Click p sh c)
  then show ?thesis
    by (simp add: handleClick_def completeMeasurement_def cancelMeasurement_nextId Let_def
        split: option.split)
next
  case (HandleEvent e)
  then show ?thesis by (cases e) (simp_all add: cancelMeasurement_nextId)
qed (simp_all add: init_def activate_def deactivate_def handleMouseMove_def Let_def
      removeMeasurement_def cancelMeasurement_nextId clearAllMeasurements_def dispose_def
      split: option.splits)

lemma step_append_nextId:
  assumes "measurements (step ev s) = measurements s @ [g]"
  shows "nextId (step ev s) = nextId s + 1 \<and> group_id g = nextId s"
proof (cases ev)
  case (Click p sh c)
  with assms show ?thesis
    by (auto simp: handleClick_def completeMeasurement_def cancelMeasurement_nextId
        cancelMeasurement_measurements createDimensionLineGroup_def Let_def
        split: option.splits if_splits)
next
  case (Remove i)
  with assms show ?thesis
    by (auto simp: removeMeasurement_def Let_def split: if_splits dest!: arg_cong [where f = length])
next
  case (HandleEvent e)
  with assms show ?thesis
    by (cases e) (simp_all add: cancelMeasurement_measurements split: if_splits)
next
  case (MouseMove p)
  with assms show ?thesis by (simp add: handleMouseMove_def Let_def split: option.splits if_splits)
qed (use assms in \<open>simp_all add: init_def activate_def deactivate_def
      cancelMeasurement_measurements clearAllMeasurements_def dispose_def\<close>)

lemma step_old_records:
  assumes "registry_wf s" and "g \<in> set (measurements (step ev s))" and "group_id g < nextId s"
  shows "g \<in> set (measurements s)"
  using step_keeps_records [of ev s]
proof (elim disjE exE conjE)
  assume "measurements (step ev s) = measurements s"
  with assms(2) show ?thesis by simp
next
  fix sp e
  assume m: "measurements (step ev s) = measurements s @ [createDimensionLineGroup (nextId s) sp e]"
  have "group_id (createDimensionLineGroup (nextId s) sp e) = nextId s"
    by (simp add: createDimensionLineGroup_def Let_def)
  with assms(2,3) m show ?thesis by auto
next
  fix i
  assume "measurements (step ev s) = take i (measurements s) @ drop (Suc i) (measurements s)"
  with assms(2) show ?thesis by (auto dest: in_set_takeD in_set_dropD)
next
  assume "measurements (step ev s) = []"
  with assms(2) show ?thesis by simp
qed

lemma distinct_take_drop:
  "distinct (map f xs) \<Longrightarrow> distinct (map f (take i xs @ drop (Suc i) xs))"
proof -
  assume d: "distinct (map f xs)"
  have "map f (take i xs @ drop (Suc i) xs) = take i (map f xs) @ drop (Suc i) (map f xs)"
    by (simp add: take_map drop_map)
  moreover have "distinct (take i (map f xs) @ drop (Suc i) (map f xs))"
    using d set_take_disj_set_drop_if_distinct [of "map f xs" i "Suc i"] by simp
  ultimately show ?thesis by simp
qed

lemma step_registry_wf:
  assumes "registry_wf s"
  shows "registry_wf (step ev s)"
  using step_keeps_records [of ev s]
proof (elim disjE exE conjE)
  assume "measurements (step ev s) = measurements s"
  with assms step_nextId_mono [of s ev] show ?thesis
    by (auto simp: registry_wf_def list_all_iff)
next
  fix sp e
  assume m: "measurements (step ev s) = measurements s @ [createDimensionLineGroup (nextId s) sp e]"
  from step_append_nextId [OF m] assms m show ?thesis
    by (auto simp: registry_wf_def list_all_iff)
next
  fix i
  assume m: "measurements (step ev s) = take i (measurements s) @ drop (Suc i) (measurements s)"
  have "distinct (map group_id (measurements (step ev s)))"
    using assms unfolding m registry_wf_def by (intro distinct_take_drop) simp
  moreover have "list_all (\<lambda>g. group_id g < nextId (step ev s)) (measurements (step ev s))"
    using assms step_nextId_mono [of s ev] unfolding m registry_wf_def list_all_iff
    by (auto dest!: in_set_takeD in_set_dropD)
  ultimately show ?thesis by (simp add: registry_wf_def)
next
  assume "measurements (step ev s) = []"
  then show ?thesis by (simp add: registry_wf_def)
qed

lemma run_old_records:
  "registry_wf s \<Longrightarrow> g \<in> set (measurements (run evs s)) \<Longrightarrow> group_id g < nextId s
     \<Longrightarrow> g \<in> set (measurements s)"
proof (induction evs arbitrary: s)
  case Nil
  then show ?case by simp
next
  case (Cons ev evs)
  have "g \<in> set (measurements (step ev s))"
  proof (rule Cons.IH)
    show "registry_wf (step ev s)" using Cons.prems(1) by (rule step_registry_wf)
    show "g \<in> set (measurements (run evs (step ev s)))" using Cons.prems(2) by simp
    show "group_id g < nextId (step ev s)"
      using Cons.prems(3) step_nextId_mono [of s ev] by linarith
  qed
  then show ?case using Cons.prems(1,3) by (intro step_old_records [of s g ev])
qed

lemma run_keeps_identified_record:
  assumes "registry_wf s" and "g \<in> set (measurements s)"
    and "g' \<in> set (measurements (run evs s))" and "group_id g' = group_id g"
  shows "g' = g"
proof -
  have lt: "group_id g < nextId s"
    using assms(1,2) by (auto simp: registry_wf_def list_all_iff)
  then have "g' \<in> set (measurements s)"
    using assms by (intro run_old_records [of s g' evs]) simp_all
  with assms(1,2,4) show ?thesis
    by (auto simp: registry_wf_def distinct_map dest: inj_onD)
qed

text \<open>
  Over whole runs: on a state that satisfies the registry invariant, a group that is in
  the registry before a run and a group with the same number in the registry after it
  are the same record, so its cached distance is the one it was built with.
\<close>

lemma run_keeps_cached_distance:
  assumes "registry_wf s" and "g \<in> set (measurements s)"
    and "g' \<in> set (measurements (run evs s))" and "group_id g' = group_id g"
  shows "ud_distance (userData g') = ud_distance (userData g)"
  using run_keeps_identified_record [OF assms] by simp

lemma new_MeasurementSystem_registry_wf: "registry_wf (new_MeasurementSystem sc cam n)"
  by (simp add: registry_wf_def new_MeasurementSystem_def)

lemma run_registry_wf: "registry_wf s \<Longrightarrow> registry_wf (run evs s)"
  by (induction evs arbitrary: s) (simp_all add: step_registry_wf)

lemma createReference_stored:
  "static_instance (snd (createReference st)) = Some (fst (createReference st))"
  by (simp add: createReference_def split: option.split)

lemma createReference_later:
  "static_instance st = Some obj \<Longrightarrow> createReference st = (obj, st)"
  by (simp add: createReference_def)

lemma createReference_funpow:
  "static_instance st = Some obj \<Longrightarrow> ((snd \<circ> createReference) ^^ n) st = st"
  by (induction n) (simp_all add: createReference_later)

lemma distanceTo_x_axis: "distanceTo (Vector3 a 0 0) (Vector3 b 0 0) = \<bar>a - b\<bar>"
  by (simp add: distanceTo_def distanceToSquared_def Let_def)

lemma vlength_x_axis: "vlength (Vector3 a 0 0) = \<bar>a\<bar>"
  by (simp add: vlength_def)

lemma snapToIncrement_ne_start:
  assumes "0 < k" and "e \<noteq> s"
  shows "snapToIncrement s e k \<noteq> s"
proof (cases "Math_round (distanceTo s e / k) * k = 0")
  case True
  then show ?thesis using assms(2) by (simp add: snapToIncrement_def Let_def)
next
  case False
  have "0 < distanceTo s (snapToIncrement s e k)"
    by (simp only: snapToIncrement_distance [OF assms(1) False] snapped_facts(1) [OF assms(1) False])
  then have "distanceTo s (snapToIncrement s e k) \<noteq> 0" by linarith
  then show ?thesis by (simp add: distanceTo_eq_0_iff)
qed

lemma vlength_perpendicular:
  "vlength (perpendicular d) = (if vx d = 0 \<and> vy d = 0 then 0 else 1)"
proof (cases "vx d = 0 \<and> vy d = 0")
  case True
  then show ?thesis by (simp add: perpendicular_def normalize_zero vlength_def)
next
  case False
  then have "vlength (Vector3 (- vy d) (vx d) 0) \<noteq> 0" by (auto simp: vlength_eq_0_iff)
  then have "vlength (perpendicular d) = 1" unfolding perpendicular_def by (rule vlength_normalize)
  with False show ?thesis by auto
qed

lemma snap_example:
  "snapToIncrement (Vector3 0 0 0) (Vector3 (123 / 100) 0 0) SNAP_SHIFT = Vector3 1 0 0"
proof -
  have "\<lfloor>(123 / 100) / (5 / 10) + 1 / 2 :: real\<rfloor> = 2" by (rule floor_unique) simp_all
  then have r: "Math_round (distanceTo (Vector3 0 0 0) (Vector3 (123 / 100) 0 0) / SNAP_SHIFT) = 2"
    by (simp add: Math_round_def distanceTo_x_axis SNAP_SHIFT_def)
  show ?thesis
    by (simp add: snapToIncrement_def Let_def r)
       (simp add: SNAP_SHIFT_def normalize_v_def sub_v_def vlength_x_axis divideScalar_def
         multiplyScalar_def add_v_def)
qed

lemma idle_example_fields:
  "isActive idle_example" "startPoint idle_example = None" "previewLine idle_example = None"
  "measurements idle_example = []" "nextId idle_example = 0"
  by (simp_all add: idle_example_def activate_def new_MeasurementSystem_def)

lemma pending_example_fields:
  "isActive pending_example" "startPoint pending_example = Some (Vector3 0 0 0)"
  "previewLine pending_example
     = Some \<lparr>line_id = 0, geometry = [Vector3 0 0 0, Vector3 0 0 0], lineDistances = [0, 0]\<rparr>"
  "measurements pending_example = []" "nextId pending_example = 1"
  by (simp_all add: pending_example_def handleClick_def idle_example_fields Let_def
      computeLineDistances_def distanceTo_x_axis)

lemma registry_example_measurements:
  "measurements registry_example
     = [createDimensionLineGroup 1 (Vector3 0 0 0) (Vector3 1 0 0),
        createDimensionLineGroup 3 (Vector3 0 0 0) (Vector3 2 0 0),
        createDimensionLineGroup 5 (Vector3 0 0 0) (Vector3 3 0 0)]"
  by (simp add: registry_example_def handleClick_def idle_example_fields Let_def
      completeMeasurement_def cancelMeasurement_def scene_add_def scene_remove_def
      eval_nat_numeral)

subsection \<open>The claims\<close>

text \<open>
  Claim C1. The measurement built by \<open>createDimensionLineGroup\<close> caches in
  \<open>userData.distance\<close> the Euclidean distance between its two points, which it stores
  beside it; this distance is not negative, and no method recomputes it: whatever the
  event and the state, the registry after the event is the registry before it, or that
  registry with one group appended, built at that moment from the pending start point,
  or that registry with one entry taken out, or empty. So every group that stays in the
  registry stays as it was built.
\<close>

theorem createDimensionLineGroup_caches_distance:
  "ud_distance (userData (createDimensionLineGroup gid a b))
     = sqrt ((vx b - vx a)\<^sup>2 + (vy b - vy a)\<^sup>2 + (vz b - vz a)\<^sup>2)
   \<and> ud_startPoint (userData (createDimensionLineGroup gid a b)) = a
   \<and> ud_endPoint (userData (createDimensionLineGroup gid a b)) = b
   \<and> 0 \<le> ud_distance (userData (createDimensionLineGroup gid a b))
   \<and> (measurements (step ev s) = measurements s
      \<or> (\<exists>sp e. startPoint s = Some sp
            \<and> measurements (step ev s)
                = measurements s @ [createDimensionLineGroup (nextId s) sp e])
      \<or> (\<exists>i. i < length (measurements s)
            \<and> measurements (step ev s)
                = take i (measurements s) @ drop (Suc i) (measurements s))
      \<or> measurements (step ev s) = [])"
proof -
  have "ud_distance (userData (createDimensionLineGroup gid a b)) = distanceTo a b"
    by (simp add: createDimensionLineGroup_def Let_def)
  moreover have "distanceTo a b = sqrt ((vx b - vx a)\<^sup>2 + (vy b - vy a)\<^sup>2 + (vz b - vz a)\<^sup>2)"
    using vlength_sub [of b a] by (simp add: vlength_def sub_v_def power2_eq_square)
  moreover have "ud_startPoint (userData (createDimensionLineGroup gid a b)) = a"
    and "ud_endPoint (userData (createDimensionLineGroup gid a b)) = b"
    by (simp_all add: createDimensionLineGroup_def Let_def)
  ultimately show ?thesis
    using distanceTo_nonneg [of a b] step_keeps_records [of ev s] by simp
qed

text \<open>
  The spec's scenario for C1: after a click at the origin, a click at \<open>(3, 4, 0)\<close>
  appends the measurement with distance \<open>5\<close>, and a pointer move over a registry of three
  measurements leaves it as it is.
\<close>

theorem createDimensionLineGroup_caches_distance_witness:
  "ud_distance (userData (createDimensionLineGroup 1 (Vector3 0 0 0) (Vector3 3 4 0))) = 5
   \<and> measurements (step (Click (Vector3 3 4 0) False False) pending_example)
       = measurements pending_example
           @ [createDimensionLineGroup 1 (Vector3 0 0 0) (Vector3 3 4 0)]
   \<and> measurements (step (MouseMove (Vector3 1 0 0)) registry_example)
       = measurements registry_example"
proof -
  have r: "sqrt 25 = 5" using real_sqrt_abs [of 5] by simp
  have c: "measurements (step (Click (Vector3 3 4 0) False False) pending_example)
       = measurements pending_example
           @ [createDimensionLineGroup 1 (Vector3 0 0 0) (Vector3 3 4 0)]"
    by (simp add: handleClick_def pending_example_fields Let_def completeMeasurement_def
        cancelMeasurement_measurements)
  have m: "measurements (step (MouseMove (Vector3 1 0 0)) registry_example)
       = measurements registry_example"
    by (simp add: handleMouseMove_def Let_def split: option.splits)
  show ?thesis
    using createDimensionLineGroup_caches_distance [of 1 "Vector3 0 0 0" "Vector3 3 4 0"
                 "Click (Vector3 3 4 0) False False" pending_example] c m
    by (simp add: r)
qed

text \<open>
  Claim C2. On an active system, a click with no pending start point appends nothing
  to the registry and goes to Pending (the start point is the clicked point, the preview
  line exists); a click with a pending start point appends exactly one measurement and
  goes back to Idle (start point and preview line cleared).
\<close>

theorem handleClick_two_click_machine:
  assumes "isActive s"
  shows "(startPoint s = None \<longrightarrow>
            measurements (handleClick p shiftKey ctrlKey s) = measurements s
          \<and> startPoint (handleClick p shiftKey ctrlKey s) = Some p
          \<and> previewLine (handleClick p shiftKey ctrlKey s)
              = Some \<lparr>line_id = nextId s, geometry = [p, p], lineDistances = [0, 0]\<rparr>)
       \<and> (startPoint s \<noteq> None \<longrightarrow>
            (\<exists>g. measurements (handleClick p shiftKey ctrlKey s) = measurements s @ [g])
          \<and> length (measurements (handleClick p shiftKey ctrlKey s)) = length (measurements s) + 1
          \<and> startPoint (handleClick p shiftKey ctrlKey s) = None
          \<and> previewLine (handleClick p shiftKey ctrlKey s) = None)"
proof (cases "startPoint s")
  case None
  have "distanceTo p p = 0" by (simp add: distanceTo_eq_0_iff)
  with None assms show ?thesis
    by (simp add: handleClick_def Let_def computeLineDistances_def)
next
  case (Some sp)
  with assms show ?thesis
    by (simp add: handleClick_def Let_def cancelMeasurement_measurements cancelMeasurement_idle
        completeMeasurement_def)
qed

text \<open>
  C2 on the idle and on the pending example.
\<close>

theorem handleClick_two_click_machine_witness:
  "isActive idle_example \<and> startPoint idle_example = None
   \<and> measurements (handleClick (Vector3 0 0 0) False False idle_example) = []
   \<and> startPoint (handleClick (Vector3 0 0 0) False False idle_example) = Some (Vector3 0 0 0)
   \<and> isActive pending_example \<and> startPoint pending_example \<noteq> None
   \<and> length (measurements (handleClick (Vector3 3 4 0) False False pending_example)) = 1
   \<and> startPoint (handleClick (Vector3 3 4 0) False False pending_example) = None
   \<and> previewLine (handleClick (Vector3 3 4 0) False False pending_example) = None"
  using handleClick_two_click_machine [of idle_example "Vector3 0 0 0" False False]
    handleClick_two_click_machine [of pending_example "Vector3 3 4 0" False False]
  by (simp add: idle_example_fields pending_example_fields)

text \<open>
  Claim C3. For a positive increment and a non-zero snapped distance
  \<open>round(d / k) * k\<close>, \<open>snapToIncrement\<close> returns the start point moved by the snapped
  distance along the unit direction from start to end, so the result lies at the snapped
  distance from the start. In particular a click at the origin and a second one at
  \<open>(1.23, 0, 0)\<close> with the shift key (step \<open>0.5\<close>) register an end point at distance
  \<open>1\<close> from the start.
\<close>

theorem snapToIncrement_snapped_distance:
  assumes "0 < k" and "Math_round (distanceTo s e / k) * k \<noteq> 0"
  shows "snapToIncrement s e k
           = add_v s (multiplyScalar (normalize_v (sub_v e s)) (Math_round (distanceTo s e / k) * k))
       \<and> vlength (normalize_v (sub_v e s)) = 1
       \<and> distanceTo s (snapToIncrement s e k) = Math_round (distanceTo s e / k) * k
       \<and> map userData (measurements
            (run [Click (Vector3 0 0 0) False False, Click (Vector3 (123 / 100) 0 0) True ctrlKey]
                 (activate (new_MeasurementSystem sc cam n))))
          = [\<lparr>ud_startPoint = Vector3 0 0 0, ud_endPoint = Vector3 1 0 0, ud_distance = 1\<rparr>]"
proof -
  have "map userData (measurements
            (run [Click (Vector3 0 0 0) False False, Click (Vector3 (123 / 100) 0 0) True ctrlKey]
                 (activate (new_MeasurementSystem sc cam n))))
          = [\<lparr>ud_startPoint = Vector3 0 0 0, ud_endPoint = Vector3 1 0 0, ud_distance = 1\<rparr>]"
    by (simp add: activate_def new_MeasurementSystem_def handleClick_def Let_def
        completeMeasurement_def cancelMeasurement_measurements snap_example
        createDimensionLineGroup_def distanceTo_x_axis)
  then show ?thesis
    using snapToIncrement_nonzero [OF assms] snapToIncrement_distance [OF assms]
      vlength_normalize [OF snapped_facts(2) [OF assms]]
    by simp
qed

text \<open>
  C3 at the origin, \<open>(1.23, 0, 0)\<close> and step \<open>0.5\<close>.
\<close>

theorem snapToIncrement_snapped_distance_witness:
  "(0::real) < 1 / 2
   \<and> Math_round (distanceTo (Vector3 0 0 0) (Vector3 (123 / 100) 0 0) / (1 / 2)) * (1 / 2) \<noteq> 0
   \<and> distanceTo (Vector3 0 0 0) (snapToIncrement (Vector3 0 0 0) (Vector3 (123 / 100) 0 0) (1 / 2)) = 1"
proof -
  have "\<lfloor>(123 / 100) / (1 / 2) + 1 / 2 :: real\<rfloor> = 2" by (rule floor_unique) simp_all
  then have r: "Math_round (distanceTo (Vector3 0 0 0) (Vector3 (123 / 100) 0 0) / (1 / 2)) = 2"
    by (simp add: Math_round_def distanceTo_x_axis)
  have k: "(0::real) < 1 / 2" by simp
  have nz: "Math_round (distanceTo (Vector3 0 0 0) (Vector3 (123 / 100) 0 0) / (1 / 2)) * (1 / 2) \<noteq> 0"
    by (simp only: r)
  from snapToIncrement_snapped_distance [OF k nz]
  have "distanceTo (Vector3 0 0 0) (snapToIncrement (Vector3 0 0 0) (Vector3 (123 / 100) 0 0) (1 / 2))
          = Math_round (distanceTo (Vector3 0 0 0) (Vector3 (123 / 100) 0 0) / (1 / 2)) * (1 / 2)"
    by blast
  also have "\<dots> = 1" by (simp only: r)
  finally show ?thesis using k nz by (intro conjI)
qed

text \<open>
  Claim C4. \<open>snapToIncrement\<close> is idempotent for every positive increment: snapping
  the snapped point again, from the same start, gives the same point.
\<close>

theorem snapToIncrement_idempotent:
  assumes k: "0 < k"
  shows "snapToIncrement s (snapToIncrement s e k) k = snapToIncrement s e k"
proof (cases "Math_round (distanceTo s e / k) * k = 0")
  case True
  then show ?thesis by (simp add: snapToIncrement_def Let_def)
next
  case False
  let ?n = "\<lfloor>distanceTo s e / k + 1 / 2\<rfloor>"
  let ?sn = "Math_round (distanceTo s e / k) * k"
  let ?u = "normalize_v (sub_v e s)"
  let ?r = "snapToIncrement s e k"
  note f = snapped_facts [OF k False]
  have r: "?r = add_v s (multiplyScalar ?u ?sn)" by (rule snapToIncrement_nonzero [OF k False])
  have d: "distanceTo s ?r = ?sn" by (rule snapToIncrement_distance [OF k False])
  have "?sn / k = of_int ?n" using k by (simp add: Math_round_def)
  then have rr: "Math_round (distanceTo s ?r / k) * k = ?sn"
    by (simp only: d Math_round_of_int) (simp add: Math_round_def)
  have u1: "vlength ?u = 1" using f(2) by (rule vlength_normalize)
  have dir: "normalize_v (sub_v ?r s) = ?u"
    by (simp only: r sub_add_cancel_v normalize_multiplyScalar [OF u1 f(1)])
  have "snapToIncrement s ?r k = add_v s (multiplyScalar (normalize_v (sub_v ?r s)) (Math_round (distanceTo s ?r / k) * k))"
    using False by (intro snapToIncrement_nonzero [OF k]) (simp only: rr, simp)
  also have "\<dots> = add_v s (multiplyScalar ?u ?sn)" by (simp only: dir rr)
  finally show ?thesis by (simp only: r)
qed

text \<open>
  C4 at the origin, \<open>(1.23, 0, 0)\<close> and step \<open>0.5\<close>.
\<close>

theorem snapToIncrement_idempotent_witness:
  "(0::real) < 1 / 2
   \<and> snapToIncrement (Vector3 0 0 0)
        (snapToIncrement (Vector3 0 0 0) (Vector3 (123 / 100) 0 0) (1 / 2)) (1 / 2)
      = snapToIncrement (Vector3 0 0 0) (Vector3 (123 / 100) 0 0) (1 / 2)"
proof -
  have k: "(0::real) < 1 / 2" by simp
  show ?thesis using snapToIncrement_idempotent [OF k] k by simp
qed

text \<open>
  Claim C5. When the end differs from the start and the snapped distance
  \<open>round(d / k) * k\<close> is zero, \<open>snapToIncrement\<close> returns the end point unchanged, which is
  not the start point.
\<close>

theorem snapToIncrement_degenerate_guard:
  assumes "e \<noteq> s" and "k \<noteq> 0" and "Math_round (distanceTo s e / k) * k = 0"
  shows "snapToIncrement s e k = e \<and> snapToIncrement s e k \<noteq> s"
  using assms by (simp add: snapToIncrement_def Let_def)

text \<open>
  C5 at the origin, \<open>(0.1, 0, 0)\<close> and step \<open>0.5\<close>: the distance rounds to zero.
\<close>

theorem snapToIncrement_degenerate_guard_witness:
  "Vector3 (1 / 10) 0 0 \<noteq> Vector3 0 0 0 \<and> (1 / 2 :: real) \<noteq> 0
   \<and> Math_round (distanceTo (Vector3 0 0 0) (Vector3 (1 / 10) 0 0) / (1 / 2)) * (1 / 2) = 0
   \<and> snapToIncrement (Vector3 0 0 0) (Vector3 (1 / 10) 0 0) (1 / 2) = Vector3 (1 / 10) 0 0"
proof -
  have "\<lfloor>(1 / 10) / (1 / 2) + 1 / 2 :: real\<rfloor> = 0" by (rule floor_unique) simp_all
  then have r: "Math_round (distanceTo (Vector3 0 0 0) (Vector3 (1 / 10) 0 0) / (1 / 2)) * (1 / 2) = 0"
    by (simp add: Math_round_def distanceTo_x_axis)
  have ne: "Vector3 (1 / 10) 0 0 \<noteq> Vector3 0 0 0" by simp
  have k: "(1 / 2 :: real) \<noteq> 0" by simp
  show ?thesis using snapToIncrement_degenerate_guard [OF ne k r] ne k r by simp
qed

text \<open>
  Claim C6 says that the builder is never called with equal points and that the
  perpendicular of the extension lines is never the zero vector. Two clicks at the same
  point refute it: \<open>handleClick\<close> has no guard, the registered measurement has equal
  start and end, and the perpendicular has length zero.
\<close>

theorem handleClick_same_point_counterexample:
  "map userData (measurements
      (run [Click (Vector3 0 0 0) False False, Click (Vector3 0 0 0) False False] idle_example))
     = [\<lparr>ud_startPoint = Vector3 0 0 0, ud_endPoint = Vector3 0 0 0, ud_distance = 0\<rparr>]
   \<and> vlength (perpendicular (sub_v (Vector3 0 0 0) (Vector3 0 0 0))) = 0"
  by (simp add: idle_example_def activate_def new_MeasurementSystem_def handleClick_def Let_def
      completeMeasurement_def cancelMeasurement_measurements
      createDimensionLineGroup_def distanceTo_x_axis vlength_perpendicular sub_v_def)

text \<open>
  Claim C6, amended. When the click that completes a measurement is at a point other
  than the pending start point, the builder gets a start and an end that differ, with
  either snap modifier or none; the perpendicular of the extension lines is a unit vector
  when start and end differ in \<open>x\<close> or \<open>y\<close> and the zero vector when they differ in
  \<open>z\<close> only.
\<close>

theorem handleClick_builder_arguments:
  assumes "isActive s" and "startPoint s = Some sp" and "p \<noteq> sp"
  shows "length (measurements (handleClick p shiftKey ctrlKey s)) = length (measurements s) + 1
       \<and> ud_startPoint (userData (last (measurements (handleClick p shiftKey ctrlKey s)))) = sp
       \<and> ud_endPoint (userData (last (measurements (handleClick p shiftKey ctrlKey s)))) \<noteq> sp
       \<and> vlength (perpendicular
            (sub_v (ud_endPoint (userData (last (measurements (handleClick p shiftKey ctrlKey s))))) sp))
          = (if vx (ud_endPoint (userData (last (measurements (handleClick p shiftKey ctrlKey s))))) = vx sp
              \<and> vy (ud_endPoint (userData (last (measurements (handleClick p shiftKey ctrlKey s))))) = vy sp
             then 0 else 1)"
proof -
  define e where "e = (if shiftKey then snapToIncrement sp p SNAP_SHIFT
                       else if ctrlKey then snapToIncrement sp p SNAP_CTRL else p)"
  have m: "measurements (handleClick p shiftKey ctrlKey s)
             = measurements s @ [createDimensionLineGroup (nextId s) sp e]"
    using assms(1,2)
    by (simp add: handleClick_def Let_def completeMeasurement_def cancelMeasurement_measurements e_def)
  have ne: "e \<noteq> sp"
    using assms(3) by (simp add: e_def snapToIncrement_ne_start SNAP_SHIFT_def SNAP_CTRL_def)
  have ud: "userData (createDimensionLineGroup (nextId s) sp e)
              = \<lparr>ud_startPoint = sp, ud_endPoint = e, ud_distance = distanceTo sp e\<rparr>"
    by (simp add: createDimensionLineGroup_def Let_def)
  show ?thesis
    using ne by (simp add: m ud vlength_perpendicular sub_v_def)
qed

text \<open>
  The amended C6 on the pending example and a click at \<open>(3, 4, 0)\<close>.
\<close>

theorem handleClick_builder_arguments_witness:
  "isActive pending_example \<and> startPoint pending_example = Some (Vector3 0 0 0)
   \<and> Vector3 3 4 0 \<noteq> Vector3 0 0 0
   \<and> ud_endPoint (userData (last (measurements
        (handleClick (Vector3 3 4 0) False False pending_example)))) \<noteq> Vector3 0 0 0
   \<and> length (measurements (handleClick (Vector3 3 4 0) False False pending_example)) = 1"
  using handleClick_builder_arguments [of pending_example "Vector3 0 0 0" "Vector3 3 4 0" False False]
  by (simp add: pending_example_fields)

text \<open>
  Claim C7. \<open>removeMeasurement\<close> with a negative index or one that is not below the
  length changes nothing; with an index in range it removes that one entry: the entries
  before it keep their place and the entries after it move up by one.
\<close>

theorem removeMeasurement_by_index:
  "(index < 0 \<or> int (length (measurements s)) \<le> index \<longrightarrow> removeMeasurement index s = s)
   \<and> (0 \<le> index \<and> index < int (length (measurements s)) \<longrightarrow>
        measurements (removeMeasurement index s)
          = take (nat index) (measurements s) @ drop (Suc (nat index)) (measurements s)
      \<and> length (measurements (removeMeasurement index s)) = length (measurements s) - 1
      \<and> (\<forall>j < nat index. measurements (removeMeasurement index s) ! j = measurements s ! j)
      \<and> (\<forall>j. nat index \<le> j \<and> j < length (measurements s) - 1 \<longrightarrow>
             measurements (removeMeasurement index s) ! j = measurements s ! Suc j))"
proof (intro conjI impI)
  assume "index < 0 \<or> int (length (measurements s)) \<le> index"
  then show "removeMeasurement index s = s" by (auto simp: removeMeasurement_def)
next
  assume h: "0 \<le> index \<and> index < int (length (measurements s))"
  then have lt: "nat index < length (measurements s)" by linarith
  have m: "measurements (removeMeasurement index s)
          = take (nat index) (measurements s) @ drop (Suc (nat index)) (measurements s)"
    using h by (simp add: removeMeasurement_def Let_def)
  show "measurements (removeMeasurement index s)
          = take (nat index) (measurements s) @ drop (Suc (nat index)) (measurements s)" by (rule m)
  show "length (measurements (removeMeasurement index s)) = length (measurements s) - 1"
    using lt by (simp add: m)
  show "\<forall>j < nat index. measurements (removeMeasurement index s) ! j = measurements s ! j"
    using lt by (simp add: m nth_append)
  show "\<forall>j. nat index \<le> j \<and> j < length (measurements s) - 1 \<longrightarrow>
             measurements (removeMeasurement index s) ! j = measurements s ! Suc j"
    using lt by (auto simp: m nth_append min_def)
qed

text \<open>
  C7 on the registry of three measurements: index \<open>1\<close> is removed, indices \<open>3\<close>
  and \<open>-1\<close> change nothing.
\<close>

theorem removeMeasurement_by_index_witness:
  "(0::int) \<le> 1 \<and> 1 < int (length (measurements registry_example))
   \<and> measurements (removeMeasurement 1 registry_example)
       = [createDimensionLineGroup 1 (Vector3 0 0 0) (Vector3 1 0 0),
          createDimensionLineGroup 5 (Vector3 0 0 0) (Vector3 3 0 0)]
   \<and> int (length (measurements registry_example)) \<le> 3
   \<and> removeMeasurement 3 registry_example = registry_example
   \<and> removeMeasurement (- 1) registry_example = registry_example"
  using removeMeasurement_by_index [of 1 registry_example] removeMeasurement_by_index [of 3 registry_example] removeMeasurement_by_index [of "- 1" registry_example]
  by (simp add: registry_example_measurements)

text \<open>
  Claim C8 says that \<open>handleMouseMove\<close> changes nothing when no measurement is
  pending. On an active system with no pending point it stores the pointer position in
  \<open>currentMousePos\<close>, before the test for a pending measurement.
\<close>

theorem handleMouseMove_idle_counterexample:
  "isActive idle_example \<and> startPoint idle_example = None
   \<and> handleMouseMove (Vector3 1 0 0) idle_example \<noteq> idle_example"
proof -
  have "currentMousePos (handleMouseMove (Vector3 1 0 0) idle_example) = Vector3 1 0 0"
    by (simp add: idle_example_def activate_def new_MeasurementSystem_def handleMouseMove_def Let_def)
  moreover have "currentMousePos idle_example = Vector3 0 0 0"
    by (simp add: idle_example_def activate_def new_MeasurementSystem_def)
  ultimately have "handleMouseMove (Vector3 1 0 0) idle_example \<noteq> idle_example"
    by (metis Vector3.inject zero_neq_one)
  then show ?thesis
    by (simp add: idle_example_def activate_def new_MeasurementSystem_def)
qed

text \<open>
  Claim C8, amended. \<open>handleMouseMove\<close> changes nothing on an inactive system. On
  an active system it stores the point in \<open>currentMousePos\<close>; when a preview line and a
  start point are present it also sets the preview line's geometry to the segment from
  the start point to the given point, and changes nothing else. It never changes
  \<open>startPoint\<close>.
\<close>

theorem handleMouseMove_frame:
  "(\<not> isActive s \<longrightarrow> handleMouseMove p s = s)
   \<and> (isActive s \<and> (previewLine s = None \<or> startPoint s = None) \<longrightarrow>
        handleMouseMove p s = s\<lparr>currentMousePos := p\<rparr>)
   \<and> (isActive s \<and> previewLine s = Some l \<and> startPoint s = Some sp \<longrightarrow>
        handleMouseMove p s
          = s\<lparr>currentMousePos := p,
              previewLine := Some (l\<lparr>geometry := [sp, p], lineDistances := [0, distanceTo sp p]\<rparr>)\<rparr>)
   \<and> startPoint (handleMouseMove p s) = startPoint s"
  by (auto simp: handleMouseMove_def Let_def computeLineDistances_def split: option.splits)

text \<open>
  The amended C8 on an inactive system, on the idle and on the pending example.
\<close>

theorem handleMouseMove_frame_witness:
  "\<not> isActive (new_MeasurementSystem [] 0 0)
   \<and> handleMouseMove (Vector3 1 0 0) (new_MeasurementSystem [] 0 0) = new_MeasurementSystem [] 0 0
   \<and> isActive idle_example \<and> startPoint idle_example = None
   \<and> handleMouseMove (Vector3 1 0 0) idle_example = idle_example\<lparr>currentMousePos := Vector3 1 0 0\<rparr>
   \<and> isActive pending_example \<and> startPoint pending_example = Some (Vector3 0 0 0)
   \<and> previewLine (handleMouseMove (Vector3 1 0 0) pending_example)
       = Some \<lparr>line_id = 0, geometry = [Vector3 0 0 0, Vector3 1 0 0], lineDistances = [0, 1]\<rparr>
   \<and> startPoint (handleMouseMove (Vector3 1 0 0) pending_example) = Some (Vector3 0 0 0)"
  using handleMouseMove_frame [of "new_MeasurementSystem [] 0 0" "Vector3 1 0 0"]
    handleMouseMove_frame [of idle_example "Vector3 1 0 0"]
    handleMouseMove_frame [of pending_example "Vector3 1 0 0"
           "\<lparr>line_id = 0, geometry = [Vector3 0 0 0, Vector3 0 0 0], lineDistances = [0, 0]\<rparr>"
           "Vector3 0 0 0"]
  by (simp add: idle_example_fields pending_example_fields new_MeasurementSystem_def
      distanceTo_x_axis)

text \<open>
  Claim C9. \<open>removeMeasurement\<close> and \<open>clearAllMeasurements\<close> leave \<open>isActive\<close>,
  \<open>startPoint\<close> and \<open>previewLine\<close> as they are.
\<close>

theorem registry_removal_keeps_interaction:
  "isActive (removeMeasurement index s) = isActive s
   \<and> startPoint (removeMeasurement index s) = startPoint s
   \<and> previewLine (removeMeasurement index s) = previewLine s
   \<and> isActive (clearAllMeasurements s) = isActive s
   \<and> startPoint (clearAllMeasurements s) = startPoint s
   \<and> previewLine (clearAllMeasurements s) = previewLine s"
  by (simp add: removeMeasurement_def clearAllMeasurements_def Let_def)

text \<open>
  Claim C10. Every call of \<open>createReference\<close> returns the same instance: the first
  call stores the instance it returns, a call on empty statics constructs it, and every
  later call returns the stored one and leaves the statics as they are.
\<close>

theorem createReference_singleton:
  "fst (createReference (((snd \<circ> createReference) ^^ n) (snd (createReference st))))
     = fst (createReference st)
   \<and> snd (createReference (((snd \<circ> createReference) ^^ n) (snd (createReference st))))
     = snd (createReference st)
   \<and> static_instance (snd (createReference st)) = Some (fst (createReference st))
   \<and> (static_instance st = None \<longrightarrow>
        fst (createReference st) = allocated st
      \<and> allocated (snd (createReference st)) = allocated st + 1)
   \<and> (static_instance st \<noteq> None \<longrightarrow> snd (createReference st) = st)"
proof -
  let ?st1 = "snd (createReference st)"
  have s: "static_instance ?st1 = Some (fst (createReference st))" by (rule createReference_stored)
  have "((snd \<circ> createReference) ^^ n) ?st1 = ?st1" using s by (rule createReference_funpow)
  moreover have "createReference ?st1 = (fst (createReference st), ?st1)"
    using s by (rule createReference_later)
  ultimately show ?thesis using s by (auto simp: createReference_def)
qed

text \<open>
  C10 on the statics before the first call.
\<close>

theorem createReference_singleton_witness:
  "static_instance statics_example = None
   \<and> fst (createReference statics_example) = 0
   \<and> allocated (snd (createReference statics_example)) = 1
   \<and> static_instance (snd (createReference statics_example)) \<noteq> None
   \<and> fst (createReference (snd (createReference statics_example))) = 0
   \<and> snd (createReference (snd (createReference statics_example)))
       = snd (createReference statics_example)"
  using createReference_singleton [of 0 statics_example] createReference_singleton [of 0 "snd (createReference statics_example)"]
  by (simp add: statics_example_def)

end
